theory Spec2Isabelle
  imports Main "HOL-Library.Sublist"
begin

section \<open>SlicerNNUNet: the API segmentation logic and the widget's stop guard\<close>

text \<open>
  A shallow embedding of \<^verbatim>\<open>SlicerNNUNetLib/ApiSegmentationLogic.py\<close> and of the
  signal handlers of \<^verbatim>\<open>SlicerNNUNetLib/Widget.py\<close>.

  Python statements become programs over an explicit state that either return a value or
  raise; a raise keeps the state reached so far, as Python does. Every call into the host
  application, the file system or the HTTP library is an external call: its outcome
  (a value, or the exception it raises) is fixed by an environment record that the
  operation takes as an argument.
\<close>

subsection \<open>Exceptions and programs\<close>

text \<open>
  Exceptions are the instances of Python's \<^verbatim>\<open>Exception\<close>, each with the text that
  \<^verbatim>\<open>str(e)\<close> gives. \<^verbatim>\<open>RuntimeError\<close> is kept apart because the widget catches
  it by class. (\<^verbatim>\<open>KeyboardInterrupt\<close> and \<^verbatim>\<open>SystemExit\<close> are not instances of
  \<^verbatim>\<open>Exception\<close> and are outside the model.)
\<close>

datatype exn = RuntimeError string | OtherException string

fun str_exn :: "exn \<Rightarrow> string" where
  "str_exn (RuntimeError m) = m"
| "str_exn (OtherException m) = m"

type_synonym ('s, 'a) prog = "'s \<Rightarrow> (exn + 'a) \<times> 's"

definition returnE :: "'a \<Rightarrow> ('s, 'a) prog" where
  "returnE x s = (Inr x, s)"

definition raiseE :: "exn \<Rightarrow> ('s, 'a) prog" where
  "raiseE e s = (Inl e, s)"

definition bindE :: "('s, 'a) prog \<Rightarrow> ('a \<Rightarrow> ('s, 'b) prog) \<Rightarrow> ('s, 'b) prog" where
  "bindE m f s = (case m s of (Inl e, s') \<Rightarrow> (Inl e, s') | (Inr x, s') \<Rightarrow> f x s')"

definition seqE :: "('s, unit) prog \<Rightarrow> ('s, 'b) prog \<Rightarrow> ('s, 'b) prog" where
  "seqE m k = bindE m (\<lambda>_. k)"

definition getE :: "('s \<Rightarrow> 'a) \<Rightarrow> ('s, 'a) prog" where
  "getE f s = (Inr (f s), s)"

definition modifyE :: "('s \<Rightarrow> 's) \<Rightarrow> ('s, unit) prog" where
  "modifyE f s = (Inr (), f s)"

text \<open>\<^verbatim>\<open>try: m  except Exception as e: h(e)\<close>\<close>

definition try_except :: "('s, 'a) prog \<Rightarrow> (exn \<Rightarrow> ('s, 'a) prog) \<Rightarrow> ('s, 'a) prog" where
  "try_except m h s = (case m s of (Inl e, s') \<Rightarrow> h e s' | (Inr x, s') \<Rightarrow> (Inr x, s'))"

text \<open>An external call that returns a value, and one that returns nothing.\<close>

definition callE :: "exn + 'a \<Rightarrow> ('s, 'a) prog" where
  "callE outcome s = (outcome, s)"

definition callV :: "exn option \<Rightarrow> ('s, unit) prog" where
  "callV outcome s = (case outcome of None \<Rightarrow> (Inr (), s) | Some e \<Rightarrow> (Inl e, s))"

subsection \<open>Python's \<^verbatim>\<open>str\<close> on the values that the f-strings format\<close>

definition digit_char :: "nat \<Rightarrow> char" where
  "digit_char d = ''0123456789'' ! d"

function str_nat :: "nat \<Rightarrow> string" where
  "str_nat n = (if n < 10 then [digit_char n] else str_nat (n div 10) @ [digit_char (n mod 10)])"
  by pat_completeness auto
termination
  by (relation "measure id") auto

declare str_nat.simps [simp del]

definition str_int :: "int \<Rightarrow> string" where
  "str_int i = (if i < 0 then ''-'' @ str_nat (nat (- i)) else str_nat (nat i))"

text \<open>\<^verbatim>\<open>str\<close> of an \<^verbatim>\<open>Optional[str]\<close>.\<close>

fun str_opt :: "string option \<Rightarrow> string" where
  "str_opt None = ''None''"
| "str_opt (Some x) = x"

text \<open>Truthiness of an \<^verbatim>\<open>Optional[str]\<close>: \<^verbatim>\<open>None\<close> and the empty string are false.\<close>

fun truthy :: "string option \<Rightarrow> bool" where
  "truthy None = False"
| "truthy (Some x) = (x \<noteq> [])"

subsection \<open>Data\<close>

text \<open>Scene nodes (volumes, label maps, segmentations) are opaque handles of the host.\<close>

type_synonym node = nat

type_synonym bytes = "char list"

text \<open>
  Modelled from the spec: the class \<^verbatim>\<open>Signal\<close> (module \<^verbatim>\<open>Signal.py\<close>) is not among
  the sources. A signal is a fire-and-forget notification; raising one is recorded, in
  order, in the field \<open>signals\<close> of the state, and returns.
\<close>

datatype signal = InferenceFinished | ErrorOccurred string | ProgressInfo string

text \<open>What \<^verbatim>\<open>requests.post\<close> is called with: the URL, the file name and the form data.\<close>

record http_request =
  req_url :: string
  req_file :: string
  req_data :: "(string \<times> string) list"

text \<open>What the code reads of a \<^verbatim>\<open>requests.Response\<close>.\<close>

record response =
  status_code :: int
  body_text :: string
  content :: bytes
  headers :: "string \<rightharpoonup> string"

text \<open>
  The attributes of an \<^verbatim>\<open>ApiSegmentationLogic\<close> object, followed by what it does to the
  outside: the contents of \<^verbatim>\<open>output/segmentation.nii.gz\<close> under its temporary directory
  (\<open>None\<close> when the file does not exist), the HTTP requests issued and the signals raised.
\<close>

record logic =
  apiBaseUrl :: string
  currentSegmentationNode :: "node option"
  currentVolumeNode :: "node option"
  currentFileId :: "string option"
  outFile :: "bytes option"
  httpLog :: "http_request list"
  signals :: "signal list"

text \<open>\<^verbatim>\<open>__init__\<close>, with a fresh temporary directory.\<close>

definition init :: logic where
  "init = \<lparr> apiBaseUrl = [], currentSegmentationNode = None, currentVolumeNode = None,
            currentFileId = None, outFile = None, httpLog = [], signals = [] \<rparr>"

definition inferenceFinished :: "(logic, unit) prog" where
  "inferenceFinished = modifyE (\<lambda>self. self\<lparr>signals := signals self @ [InferenceFinished]\<rparr>)"

definition errorOccurred :: "string \<Rightarrow> (logic, unit) prog" where
  "errorOccurred msg = modifyE (\<lambda>self. self\<lparr>signals := signals self @ [ErrorOccurred msg]\<rparr>)"

definition progressInfo :: "string \<Rightarrow> (logic, unit) prog" where
  "progressInfo msg = modifyE (\<lambda>self. self\<lparr>signals := signals self @ [ProgressInfo msg]\<rparr>)"

subsection \<open>Endpoint configuration\<close>

text \<open>\<^verbatim>\<open>str.rstrip("/")\<close>\<close>

definition rstrip_slash :: "string \<Rightarrow> string" where
  "rstrip_slash s = rev (dropWhile (\<lambda>c. c = CHR ''/'') (rev s))"

definition setApiUrl :: "string \<Rightarrow> logic \<Rightarrow> logic" where
  "setApiUrl apiUrl self = self\<lparr>apiBaseUrl := rstrip_slash apiUrl\<rparr>"

definition getApiUrl :: "logic \<Rightarrow> string" where
  "getApiUrl self = apiBaseUrl self"

definition getPredictUrl :: "logic \<Rightarrow> string" where
  "getPredictUrl self = apiBaseUrl self @ ''/predict''"

definition getUploadUrl :: "logic \<Rightarrow> string \<Rightarrow> string" where
  "getUploadUrl self file_id = apiBaseUrl self @ ''/upload_correction/'' @ file_id"

definition getCurrentSegmentation :: "logic \<Rightarrow> node option" where
  "getCurrentSegmentation self = currentSegmentationNode self"

subsection \<open>\<^verbatim>\<open>startSegmentation\<close>\<close>

text \<open>
  The outcomes of the external calls of one \<^verbatim>\<open>startSegmentation\<close>, in the order of the
  source: \<^verbatim>\<open>tempfile.NamedTemporaryFile\<close> (giving the base name of the temporary file),
  \<^verbatim>\<open>slicer.util.exportNode\<close>, \<^verbatim>\<open>open(temp_path, 'rb')\<close>, \<^verbatim>\<open>requests.post\<close>,
  \<^verbatim>\<open>os.unlink\<close>, \<^verbatim>\<open>Path.mkdir\<close>, \<^verbatim>\<open>open(out_file, 'wb')\<close> and \<^verbatim>\<open>f.write\<close>.
\<close>

record predict_env =
  pe_NamedTemporaryFile :: "exn + string"
  pe_exportNode :: "exn option"
  pe_open_rb :: "exn option"
  pe_post :: "exn + response"
  pe_unlink :: "exn option"
  pe_mkdir :: "exn option"
  pe_open_wb :: "exn option"
  pe_write :: "exn option"

text \<open>\<^verbatim>\<open>requests.post\<close>: the request is issued, then the call returns or raises.\<close>

definition requests_post ::
  "exn + response \<Rightarrow> string \<Rightarrow> string \<Rightarrow> (string \<times> string) list \<Rightarrow> (logic, response) prog" where
  "requests_post outcome url fname data self =
     (outcome, self\<lparr>httpLog := httpLog self @ [\<lparr>req_url = url, req_file = fname, req_data = data\<rparr>]\<rparr>)"

text \<open>
  \<^verbatim>\<open>open(out_file, 'wb')\<close> creates or truncates the file; \<^verbatim>\<open>f.write(content)\<close> fills it.
  A write that raises leaves the truncated file.
\<close>

definition open_wb :: "exn option \<Rightarrow> (logic, unit) prog" where
  "open_wb outcome = seqE (callV outcome) (modifyE (\<lambda>self. self\<lparr>outFile := Some []\<rparr>))"

definition f_write :: "exn option \<Rightarrow> bytes \<Rightarrow> (logic, unit) prog" where
  "f_write outcome b = seqE (callV outcome) (modifyE (\<lambda>self. self\<lparr>outFile := Some b\<rparr>))"

text \<open>Lines 92 to 104: the response has status 200.\<close>

definition storeResponse :: "predict_env \<Rightarrow> response \<Rightarrow> (logic, unit) prog" where
  "storeResponse env resp =
     seqE (modifyE (\<lambda>self. self\<lparr>currentFileId := headers resp ''X-File-ID''\<rparr>))
    (seqE (bindE (getE currentFileId) (\<lambda>fid.
             if \<not> truthy fid then progressInfo ''Warning: No file ID received from API''
             else returnE ()))
    (seqE (callV (pe_mkdir env))
    (seqE (open_wb (pe_open_wb env))
    (seqE (f_write (pe_write env) (content resp))
    (seqE (bindE (getE currentFileId) (\<lambda>fid.
             progressInfo (''Segmentation received from API with ID: '' @ str_opt fid)))
          inferenceFinished)))))"

text \<open>Lines 67 to 104: the body of the \<^verbatim>\<open>try\<close>.\<close>

definition startSegmentation_try :: "predict_env \<Rightarrow> node \<Rightarrow> (logic, unit) prog" where
  "startSegmentation_try env volumeNode =
     bindE (getE getPredictUrl) (\<lambda>predict_url.
     seqE (progressInfo (''Sending volume to API: '' @ predict_url))
    (bindE (callE (pe_NamedTemporaryFile env)) (\<lambda>temp_name.
     seqE (callV (pe_exportNode env))
    (seqE (callV (pe_open_rb env))
    (seqE (progressInfo ''Uploading volume to API...'')
    (bindE (requests_post (pe_post env) predict_url temp_name []) (\<lambda>resp.
     seqE (callV (pe_unlink env))
    (if status_code resp \<noteq> 200
     then errorOccurred (''API returned error: '' @ str_int (status_code resp) @ '' - '' @ body_text resp)
     else storeResponse env resp))))))))"

definition startSegmentation :: "predict_env \<Rightarrow> node \<Rightarrow> (logic, unit) prog" where
  "startSegmentation env volumeNode =
     bindE (getE apiBaseUrl) (\<lambda>url.
     if url = [] then errorOccurred ''API URL is not configured.''
     else
       seqE (modifyE (\<lambda>self. self\<lparr>currentVolumeNode := Some volumeNode\<rparr>))
            (try_except (startSegmentation_try env volumeNode)
               (\<lambda>e. errorOccurred (''Error during API communication: '' @ str_exn e))))"

subsection \<open>\<^verbatim>\<open>uploadSegmentation\<close>\<close>

text \<open>
  The outcomes of the external calls of one \<^verbatim>\<open>uploadSegmentation\<close>:
  \<^verbatim>\<open>NamedTemporaryFile\<close>, \<^verbatim>\<open>AddNewNodeByClass\<close> (the label map node),
  \<^verbatim>\<open>ExportAllSegmentsToLabelmapNode\<close>, \<^verbatim>\<open>exportNode\<close>, \<^verbatim>\<open>RemoveNode\<close>,
  \<^verbatim>\<open>open(temp_path, 'rb')\<close>, \<^verbatim>\<open>GetName\<close> of the stored volume, \<^verbatim>\<open>requests.post\<close>
  and \<^verbatim>\<open>os.unlink\<close>.
\<close>

record upload_env =
  ue_NamedTemporaryFile :: "exn + string"
  ue_AddNewNodeByClass :: "exn + node"
  ue_ExportAllSegmentsToLabelmapNode :: "exn option"
  ue_exportNode :: "exn option"
  ue_RemoveNode :: "exn option"
  ue_open_rb :: "exn option"
  ue_GetName :: "node \<Rightarrow> exn + string"
  ue_post :: "exn + response"
  ue_unlink :: "exn option"

text \<open>Lines 121 to 158: the body of the \<^verbatim>\<open>try\<close>.\<close>

definition uploadSegmentation_try :: "upload_env \<Rightarrow> node \<Rightarrow> (logic, bool) prog" where
  "uploadSegmentation_try env segmentationNode =
     bindE (getE (\<lambda>self. getUploadUrl self (str_opt (currentFileId self)))) (\<lambda>upload_url.
     seqE (progressInfo (''Uploading corrected segmentation to: '' @ upload_url))
    (bindE (callE (ue_NamedTemporaryFile env)) (\<lambda>temp_name.
     bindE (callE (ue_AddNewNodeByClass env)) (\<lambda>labelmapVolumeNode.
     seqE (callV (ue_ExportAllSegmentsToLabelmapNode env))
    (seqE (callV (ue_exportNode env))
    (seqE (callV (ue_RemoveNode env))
    (seqE (callV (ue_open_rb env))
    (bindE (bindE (getE currentVolumeNode) (\<lambda>vol.
              case vol of
                None \<Rightarrow> returnE []
              | Some v \<Rightarrow> bindE (callE (ue_GetName env v)) (\<lambda>name.
                            returnE [(''original_volume_name'', name)]))) (\<lambda>data.
     seqE (progressInfo ''Uploading segmentation to API...'')
    (bindE (requests_post (ue_post env) upload_url temp_name data) (\<lambda>resp.
     seqE (callV (ue_unlink env))
    (if status_code resp \<noteq> 200
     then seqE (errorOccurred
                  (''API returned error: '' @ str_int (status_code resp) @ '' - '' @ body_text resp))
               (returnE False)
     else bindE (getE currentFileId) (\<lambda>fid.
          seqE (progressInfo
                  (''Segmentation successfully uploaded to API with ID: '' @ str_opt fid))
               (returnE True))))))))))))))"

definition uploadSegmentation :: "upload_env \<Rightarrow> node \<Rightarrow> (logic, bool) prog" where
  "uploadSegmentation env segmentationNode =
     bindE (getE apiBaseUrl) (\<lambda>url.
     if url = [] then seqE (errorOccurred ''API URL is not configured.'') (returnE False)
     else bindE (getE currentFileId) (\<lambda>fid.
     if \<not> truthy fid
     then seqE (errorOccurred ''No file ID available. Please run inference first.'')
               (returnE False)
     else try_except (uploadSegmentation_try env segmentationNode)
            (\<lambda>e. seqE (errorOccurred (''Error during upload: '' @ str_exn e)) (returnE False))))"

definition stopSegmentation :: "(logic, unit) prog" where
  "stopSegmentation = returnE ()"

definition waitForSegmentationFinished :: "(logic, unit) prog" where
  "waitForSegmentationFinished = returnE ()"

subsection \<open>\<^verbatim>\<open>loadSegmentation\<close>\<close>

text \<open>
  The outcomes of the external calls of one \<^verbatim>\<open>loadSegmentation\<close>:
  \<^verbatim>\<open>loadLabelVolume\<close>, \<^verbatim>\<open>AddNewNodeByClass\<close>, \<^verbatim>\<open>GetName\<close> of the stored volume,
  \<^verbatim>\<open>SetName\<close>, \<^verbatim>\<open>ImportLabelmapToSegmentationNode\<close> and \<^verbatim>\<open>RemoveNode\<close>.
  \<^verbatim>\<open>segmentation_file.exists()\<close> reads the state of the output file.
\<close>

record load_env =
  le_loadLabelVolume :: "exn + node"
  le_AddNewNodeByClass :: "exn + node"
  le_GetName :: "node \<Rightarrow> exn + string"
  le_SetName :: "string \<Rightarrow> exn option"
  le_ImportLabelmapToSegmentationNode :: "exn option"
  le_RemoveNode :: "exn option"

definition file_not_found :: string where
  "file_not_found = ''Segmentation file not found. API segmentation may have failed.''"

text \<open>\<^verbatim>\<open>None.GetName()\<close>\<close>

definition none_has_no_GetName :: exn where
  "none_has_no_GetName =
     OtherException ([CHR 0x27] @ ''NoneType'' @ [CHR 0x27] @ '' object has no attribute ''
                     @ [CHR 0x27] @ ''GetName'' @ [CHR 0x27])"

text \<open>Lines 178 to 200: the body of the \<^verbatim>\<open>try\<close>.\<close>

definition loadSegmentation_try :: "load_env \<Rightarrow> (logic, node) prog" where
  "loadSegmentation_try env =
     bindE (getE outFile) (\<lambda>file.
     if file = None then raiseE (RuntimeError file_not_found)
     else
     bindE (callE (le_loadLabelVolume env)) (\<lambda>labelmapVolumeNode.
     bindE (callE (le_AddNewNodeByClass env)) (\<lambda>segmentationNode.
     bindE (bindE (getE currentVolumeNode) (\<lambda>vol.
              case vol of
                None \<Rightarrow> raiseE none_has_no_GetName
              | Some v \<Rightarrow> callE (le_GetName env v))) (\<lambda>name.
     seqE (callV (le_SetName env (name @ ''_ApiSegmentation'')))
    (seqE (callV (le_ImportLabelmapToSegmentationNode env))
    (seqE (callV (le_RemoveNode env))
    (seqE (modifyE (\<lambda>self. self\<lparr>currentSegmentationNode := Some segmentationNode\<rparr>))
          (returnE segmentationNode))))))))"

definition loadSegmentation :: "load_env \<Rightarrow> (logic, node) prog" where
  "loadSegmentation env =
     try_except (loadSegmentation_try env)
       (\<lambda>e. raiseE (RuntimeError (''Failed to load segmentation: '' @ str_exn e)))"

subsection \<open>The widget: signal handlers and the stop button\<close>

text \<open>
  \<^verbatim>\<open>try: m  except RuntimeError as e: h(str(e))\<close> and \<^verbatim>\<open>try: m  finally: f\<close>
\<close>

definition try_except_RuntimeError ::
  "('s, 'a) prog \<Rightarrow> (string \<Rightarrow> ('s, 'a) prog) \<Rightarrow> ('s, 'a) prog" where
  "try_except_RuntimeError m h s =
     (case m s of
        (Inl (RuntimeError msg), s') \<Rightarrow> h msg s'
      | (Inl (OtherException msg), s') \<Rightarrow> (Inl (OtherException msg), s')
      | (Inr x, s') \<Rightarrow> (Inr x, s'))"

definition try_finally :: "('s, 'a) prog \<Rightarrow> ('s, unit) prog \<Rightarrow> ('s, 'a) prog" where
  "try_finally m f s =
     (case m s of (r, s') \<Rightarrow>
        (case f s' of (Inl e, s'') \<Rightarrow> (Inl e, s'') | (Inr _, s'') \<Rightarrow> (r, s'')))"

text \<open>
  \<^verbatim>\<open>self.logic\<close> is one of the two logic objects of the widget. The class of the local one,
  \<^verbatim>\<open>SegmentationLogic\<close>, is not among the sources: what its methods do is given by the
  environment of the handler that calls them.
\<close>

datatype backend = LocalLogic | ApiLogic

text \<open>The calls that the widget makes on \<^verbatim>\<open>self.logic\<close>, in order.\<close>

datatype logic_call = StopSegmentation | WaitForSegmentationFinished | LoadSegmentation

text \<open>
  The modal windows shown: \<^verbatim>\<open>slicer.util.errorDisplay\<close> (with or without the traceback)
  and \<^verbatim>\<open>slicer.util.infoDisplay\<close>.
\<close>

datatype dialog = ErrorDisplay string bool | InfoDisplay string

text \<open>
  The attributes of a \<^verbatim>\<open>Widget\<close> that the handlers read and write: the guard, the
  selected logic, \<^verbatim>\<open>_parameterNode.useApi\<close>, \<^verbatim>\<open>_doShowErrorWindows\<close>, the API logic
  object, the visibility of the apply and stop buttons, the enabled state of the install,
  apply, input and upload controls, and the messages passed to the log. \<open>dialogs\<close> and
  \<open>logicCalls\<close> record what the widget shows and calls. The formatting of a log message
  for display (\<^verbatim>\<open>_formatMsg\<close>) and the events that \<^verbatim>\<open>processEvents\<close> runs inside
  \<^verbatim>\<open>onProgressInfo\<close> are not modelled.
\<close>

record widget =
  isStopping :: bool
  selectedLogic :: backend
  useApi :: bool
  doShowErrorWindows :: bool
  apiLogic :: logic
  applyVisible :: bool
  stopVisible :: bool
  installEnabled :: bool
  applyEnabled :: bool
  inputEnabled :: bool
  uploadEnabled :: bool
  logText :: "string list"
  dialogs :: "dialog list"
  logicCalls :: "logic_call list"

definition setButtonsEnabled :: "bool \<Rightarrow> (widget, unit) prog" where
  "setButtonsEnabled isEnabled =
     modifyE (\<lambda>self. self\<lparr>installEnabled := isEnabled, applyEnabled := isEnabled,
                           inputEnabled := isEnabled,
                           uploadEnabled := (isEnabled \<and> useApi self
                              \<and> getCurrentSegmentation (apiLogic self) \<noteq> None)\<rparr>)"

definition setApplyVisible :: "bool \<Rightarrow> (widget, unit) prog" where
  "setApplyVisible isVisible =
     seqE (modifyE (\<lambda>self. self\<lparr>applyVisible := isVisible, stopVisible := (\<not> isVisible)\<rparr>))
          (setButtonsEnabled isVisible)"

definition onProgressInfo :: "string \<Rightarrow> (widget, unit) prog" where
  "onProgressInfo infoMsg = modifyE (\<lambda>self. self\<lparr>logText := logText self @ [infoMsg]\<rparr>)"

definition reportError :: "string \<Rightarrow> bool \<Rightarrow> (widget, unit) prog" where
  "reportError msg doTraceback =
     seqE (onProgressInfo msg)
          (bindE (getE doShowErrorWindows) (\<lambda>showWindows.
             if showWindows
             then modifyE (\<lambda>self. self\<lparr>dialogs := dialogs self @ [ErrorDisplay msg doTraceback]\<rparr>)
             else returnE ()))"

definition reportFinished :: "string \<Rightarrow> (widget, unit) prog" where
  "reportFinished msg =
     seqE (onProgressInfo (replicate 80 (CHR ''*'')))
    (seqE (onProgressInfo msg)
          (bindE (getE doShowErrorWindows) (\<lambda>showWindows.
             if showWindows
             then modifyE (\<lambda>self. self\<lparr>dialogs := dialogs self @ [InfoDisplay msg]\<rparr>)
             else returnE ())))"

text \<open>A method of the API logic, run on the widget's \<^verbatim>\<open>apiLogic\<close>.\<close>

definition onApiLogic :: "(logic, 'a) prog \<Rightarrow> (widget, 'a) prog" where
  "onApiLogic m self = (case m (apiLogic self) of (r, l) \<Rightarrow> (r, self\<lparr>apiLogic := l\<rparr>))"

definition called :: "logic_call \<Rightarrow> (widget, unit) prog" where
  "called c = modifyE (\<lambda>self. self\<lparr>logicCalls := logicCalls self @ [c]\<rparr>)"

text \<open>
  The environment of one \<^verbatim>\<open>onInferenceFinished\<close>: the external calls of the API logic's
  \<^verbatim>\<open>loadSegmentation\<close>, the outcome of the local logic's \<^verbatim>\<open>loadSegmentation\<close>, the node
  selected in the input selector, and the outcomes of its \<^verbatim>\<open>GetName\<close> and of the
  segmentation's \<^verbatim>\<open>SetName\<close>.
\<close>

record finish_env =
  fe_load :: load_env
  fe_localLoad :: "exn + node"
  fe_currentNode :: "node option"
  fe_GetName :: "node \<Rightarrow> exn + string"
  fe_SetName :: "string \<Rightarrow> exn option"

text \<open>\<^verbatim>\<open>self.logic.loadSegmentation()\<close>\<close>

definition logic_loadSegmentation :: "finish_env \<Rightarrow> (widget, node) prog" where
  "logic_loadSegmentation env =
     seqE (called LoadSegmentation)
          (bindE (getE selectedLogic) (\<lambda>b.
             case b of
               ApiLogic \<Rightarrow> onApiLogic (loadSegmentation (fe_load env))
             | LocalLogic \<Rightarrow> callE (fe_localLoad env)))"

definition onInferenceFinished :: "finish_env \<Rightarrow> (widget, unit) prog" where
  "onInferenceFinished env =
     bindE (getE isStopping) (\<lambda>stopping.
     if stopping then setApplyVisible True
     else
       try_finally
         (try_except_RuntimeError
            (seqE (onProgressInfo ''Loading inference results...'')
            (bindE (logic_loadSegmentation env) (\<lambda>segmentation.
             bindE (case fe_currentNode env of
                      None \<Rightarrow> raiseE none_has_no_GetName
                    | Some v \<Rightarrow> callE (fe_GetName env v)) (\<lambda>name.
             seqE (callV (fe_SetName env (name @ ''Segmentation'')))
                  (reportFinished ''Inference ended successfully.'')))))
            (\<lambda>e. reportError (''Inference ended in error:'' @ [CHR 0x0A] @ e) True))
         (setApplyVisible True))"

definition onInferenceError :: "string \<Rightarrow> (widget, unit) prog" where
  "onInferenceError errorMsg =
     bindE (getE isStopping) (\<lambda>stopping.
     if stopping then returnE ()
     else seqE (setApplyVisible True)
               (reportError (''Encountered error during inference :'' @ [CHR 0x0A] @ errorMsg)
                  False))"

text \<open>
  A signal of a logic object reaches the handler that \<^verbatim>\<open>__init__\<close> connected to it. The
  dispatch is synchronous: an exception of a handler ends it.
\<close>

fun handle :: "signal \<times> finish_env \<Rightarrow> (widget, unit) prog" where
  "handle (InferenceFinished, env) = onInferenceFinished env"
| "handle (ErrorOccurred msg, env) = onInferenceError msg"
| "handle (ProgressInfo msg, env) = onProgressInfo msg"

fun deliver :: "(signal \<times> finish_env) list \<Rightarrow> (widget, unit) prog" where
  "deliver [] = returnE ()"
| "deliver (d # ds) = seqE (handle d) (deliver ds)"

text \<open>
  The environment of one \<^verbatim>\<open>onStopClicked\<close>: the signals delivered while the local logic
  stops and while it waits, the outcomes of these two calls, and the signals delivered by
  \<^verbatim>\<open>slicer.app.processEvents()\<close>. The two methods of the API logic do nothing.
\<close>

record stop_env =
  se_during_stop :: "(signal \<times> finish_env) list"
  se_stop :: "exn option"
  se_during_wait :: "(signal \<times> finish_env) list"
  se_wait :: "exn option"
  se_during_processEvents :: "(signal \<times> finish_env) list"

text \<open>\<^verbatim>\<open>self.logic.stopSegmentation()\<close> and \<^verbatim>\<open>self.logic.waitForSegmentationFinished()\<close>\<close>

definition logic_stopSegmentation :: "stop_env \<Rightarrow> (widget, unit) prog" where
  "logic_stopSegmentation env =
     seqE (called StopSegmentation)
          (bindE (getE selectedLogic) (\<lambda>b.
             case b of
               ApiLogic \<Rightarrow> onApiLogic stopSegmentation
             | LocalLogic \<Rightarrow> seqE (deliver (se_during_stop env)) (callV (se_stop env))))"

definition logic_waitForSegmentationFinished :: "stop_env \<Rightarrow> (widget, unit) prog" where
  "logic_waitForSegmentationFinished env =
     seqE (called WaitForSegmentationFinished)
          (bindE (getE selectedLogic) (\<lambda>b.
             case b of
               ApiLogic \<Rightarrow> onApiLogic waitForSegmentationFinished
             | LocalLogic \<Rightarrow> seqE (deliver (se_during_wait env)) (callV (se_wait env))))"

definition onStopClicked :: "stop_env \<Rightarrow> (widget, unit) prog" where
  "onStopClicked env =
     seqE (modifyE (\<lambda>self. self\<lparr>isStopping := True\<rparr>))
    (seqE (logic_stopSegmentation env)
    (seqE (logic_waitForSegmentationFinished env)
    (seqE (deliver (se_during_processEvents env))
    (seqE (modifyE (\<lambda>self. self\<lparr>isStopping := False\<rparr>))
          (setApplyVisible True)))))"

text \<open>The calls made on \<^verbatim>\<open>self.logic\<close> and the windows shown between two states.\<close>

definition calls_made :: "widget \<Rightarrow> widget \<Rightarrow> logic_call list" where
  "calls_made w w' = drop (length (logicCalls w)) (logicCalls w')"

definition shown :: "widget \<Rightarrow> widget \<Rightarrow> dialog list" where
  "shown w w' = drop (length (dialogs w)) (dialogs w')"

subsection \<open>Observing the signals of one call\<close>

text \<open>The signals raised between two states, and the error and finished signals among them.\<close>

definition emitted :: "logic \<Rightarrow> logic \<Rightarrow> signal list" where
  "emitted s s' = drop (length (signals s)) (signals s')"

fun errors_of :: "signal list \<Rightarrow> string list" where
  "errors_of [] = []"
| "errors_of (ErrorOccurred m # xs) = m # errors_of xs"
| "errors_of (_ # xs) = errors_of xs"

fun finished_count :: "signal list \<Rightarrow> nat" where
  "finished_count [] = 0"
| "finished_count (InferenceFinished # xs) = Suc (finished_count xs)"
| "finished_count (_ # xs) = finished_count xs"

text \<open>The HTTP requests issued between two states.\<close>

definition issued :: "logic \<Rightarrow> logic \<Rightarrow> http_request list" where
  "issued s s' = drop (length (httpLog s)) (httpLog s')"

subsection \<open>Scenarios of one \<^verbatim>\<open>startSegmentation\<close>\<close>

text \<open>\<^verbatim>\<open>NamedTemporaryFile\<close> returns.\<close>

definition temp_created :: "predict_env \<Rightarrow> bool" where
  "temp_created env \<longleftrightarrow>
     (case pe_NamedTemporaryFile env of Inl _ \<Rightarrow> False | Inr _ \<Rightarrow> True)"

text \<open>
  The volume is written to a temporary file and posted, and the server answers with
  \<open>resp\<close>: the calls of lines 71 to 81 return.
\<close>

definition answered :: "predict_env \<Rightarrow> response \<Rightarrow> bool" where
  "answered env resp \<longleftrightarrow>
     temp_created env \<and> pe_exportNode env = None \<and> pe_open_rb env = None
     \<and> pe_post env = Inr resp"

text \<open>The output directory and the output file can be written: lines 97 to 101 return.\<close>

definition output_writable :: "predict_env \<Rightarrow> bool" where
  "output_writable env \<longleftrightarrow>
     pe_mkdir env = None \<and> pe_open_wb env = None \<and> pe_write env = None"

text \<open>
  The call fails before line 92, where the header is read: one of the calls of lines 71
  to 84 raises, or the response does not have status 200.
\<close>

definition fails_before_header :: "predict_env \<Rightarrow> bool" where
  "fails_before_header env \<longleftrightarrow>
     \<not> temp_created env
     \<or> pe_exportNode env \<noteq> None \<or> pe_open_rb env \<noteq> None
     \<or> (case pe_post env of Inl _ \<Rightarrow> True | Inr resp \<Rightarrow> status_code resp \<noteq> 200)
     \<or> pe_unlink env \<noteq> None"

text \<open>A caller that uploads again and again, each time in its own environment.\<close>

fun uploadAll :: "(upload_env \<times> node) list \<Rightarrow> logic \<Rightarrow> (exn + bool) list \<times> logic" where
  "uploadAll [] self = ([], self)"
| "uploadAll ((env, seg) # calls) self =
     (case uploadSegmentation env seg self of (r, self') \<Rightarrow>
        (case uploadAll calls self' of (rs, self'') \<Rightarrow> (r # rs, self'')))"

text \<open>
  The exception \<open>e\<close> is reported: the error signal is raised once, with the text of \<open>e\<close>,
  and the finished signal is not raised.
\<close>

definition reports :: "logic \<Rightarrow> logic \<Rightarrow> exn \<Rightarrow> bool" where
  "reports s s' e \<longleftrightarrow>
     errors_of (emitted s s') = [''Error during API communication: '' @ str_exn e]
     \<and> finished_count (emitted s s') = 0"

text \<open>What \<^verbatim>\<open>loadSegmentation\<close> raises for the underlying exception \<open>e\<close>.\<close>

definition wrapped :: "exn \<Rightarrow> exn + node" where
  "wrapped e = Inl (RuntimeError (''Failed to load segmentation: '' @ str_exn e))"

text \<open>Scenarios of one \<^verbatim>\<open>loadSegmentation\<close>: both nodes are made; the segmentation is named.\<close>

definition nodes_made :: "load_env \<Rightarrow> bool" where
  "nodes_made env \<longleftrightarrow>
     (case le_loadLabelVolume env of Inl _ \<Rightarrow> False | Inr _ \<Rightarrow>
        (case le_AddNewNodeByClass env of Inl _ \<Rightarrow> False | Inr _ \<Rightarrow> True))"

definition named :: "load_env \<Rightarrow> logic \<Rightarrow> bool" where
  "named env self \<longleftrightarrow>
     nodes_made env \<and>
     (case currentVolumeNode self of
        None \<Rightarrow> False
      | Some v \<Rightarrow> (case le_GetName env v of
                     Inl _ \<Rightarrow> False
                   | Inr name \<Rightarrow> le_SetName env (name @ ''_ApiSegmentation'') = None))"

subsection \<open>Example inputs\<close>

text \<open>An environment in which every call returns, around a given outcome of the request.\<close>

definition ok_env :: "exn + response \<Rightarrow> predict_env" where
  "ok_env post = \<lparr> pe_NamedTemporaryFile = Inr ''tmp0.nii.gz'', pe_exportNode = None,
       pe_open_rb = None, pe_post = post, pe_unlink = None, pe_mkdir = None,
       pe_open_wb = None, pe_write = None \<rparr>"

definition resp_abc123 :: response where
  "resp_abc123 = \<lparr> status_code = 200, body_text = ''B'', content = ''B'',
       headers = [''X-File-ID'' \<mapsto> ''abc123''] \<rparr>"

definition resp_boom :: response where
  "resp_boom = \<lparr> status_code = 500, body_text = ''boom'', content = ''boom'',
       headers = Map.empty \<rparr>"

definition resp_no_id :: response where
  "resp_no_id = \<lparr> status_code = 200, body_text = ''B'', content = ''B'',
       headers = Map.empty \<rparr>"

definition ok_upload_env :: upload_env where
  "ok_upload_env = \<lparr> ue_NamedTemporaryFile = Inr ''tmp1.nii.gz'', ue_AddNewNodeByClass = Inr 11,
       ue_ExportAllSegmentsToLabelmapNode = None, ue_exportNode = None, ue_RemoveNode = None,
       ue_open_rb = None, ue_GetName = (\<lambda>_. Inr ''CT''),
       ue_post = Inr \<lparr> status_code = 200, body_text = ''ok'', content = ''ok'',
                        headers = Map.empty \<rparr>,
       ue_unlink = None \<rparr>"

definition configured :: logic where
  "configured = setApiUrl ''http://host:8000/'' init"

definition net_down_env :: predict_env where
  "net_down_env = ok_env (Inl (OtherException ''Connection refused''))"

definition disk_full_env :: predict_env where
  "disk_full_env = (ok_env (Inr resp_abc123))
     \<lparr>pe_write := Some (OtherException ''No space left on device'')\<rparr>"

text \<open>A logic object after a predict call that stored the job \<^verbatim>\<open>abc123\<close>.\<close>

definition with_job :: logic where
  "with_job = configured\<lparr>currentVolumeNode := Some 7, currentFileId := Some ''abc123'',
                          outFile := Some ''B''\<rparr>"

definition ok_load_env :: load_env where
  "ok_load_env = \<lparr> le_loadLabelVolume = Inr 21, le_AddNewNodeByClass = Inr 22,
       le_GetName = (\<lambda>_. Inr ''CT''), le_SetName = (\<lambda>_. None),
       le_ImportLabelmapToSegmentationNode = None, le_RemoveNode = None \<rparr>"

definition bad_load_env :: load_env where
  "bad_load_env = ok_load_env\<lparr>le_loadLabelVolume := Inl (OtherException ''cannot read file'')\<rparr>"

definition ok_finish_env :: finish_env where
  "ok_finish_env = \<lparr> fe_load = ok_load_env, fe_localLoad = Inr 23, fe_currentNode = Some 7,
       fe_GetName = (\<lambda>_. Inr ''CT''), fe_SetName = (\<lambda>_. None) \<rparr>"

text \<open>A widget in API mode while a segmentation runs: the stop button is visible.\<close>

definition running :: widget where
  "running = \<lparr> isStopping = False, selectedLogic = ApiLogic, useApi = True,
       doShowErrorWindows = True, apiLogic = with_job, applyVisible = False,
       stopVisible = True, installEnabled = False, applyEnabled = False,
       inputEnabled = False, uploadEnabled = False, logText = [], dialogs = [],
       logicCalls = [] \<rparr>"

text \<open>The same widget with the guard set.\<close>

definition stopping :: widget where
  "stopping = running\<lparr>isStopping := True\<rparr>"

text \<open>A stop during which the finished signal is delivered.\<close>

definition finish_during_stop :: stop_env where
  "finish_during_stop = \<lparr> se_during_stop = [], se_stop = None, se_during_wait = [],
       se_wait = None, se_during_processEvents = [(InferenceFinished, ok_finish_env)] \<rparr>"

definition quiet_stop :: stop_env where
  "quiet_stop = \<lparr> se_during_stop = [], se_stop = None, se_during_wait = [],
       se_wait = None, se_during_processEvents = [] \<rparr>"

section \<open>Properties\<close>

lemmas prog_defs = returnE_def raiseE_def bindE_def seqE_def getE_def modifyE_def
  try_except_def callE_def callV_def

lemmas signal_defs = inferenceFinished_def errorOccurred_def progressInfo_def

subsection \<open>The base URL\<close>

lemma rstrip_slash_no_suffix: "\<not> suffix ''/'' (rstrip_slash url)"
proof
  assume "suffix ''/'' (rstrip_slash url)"
  then obtain p where "rstrip_slash url = p @ ''/''" by (auto simp: suffix_def)
  then have "dropWhile (\<lambda>c. c = CHR ''/'') (rev url) = CHR ''/'' # rev p"
    by (simp add: rstrip_slash_def rev_swap)
  then have "hd (dropWhile (\<lambda>c. c = CHR ''/'') (rev url)) = CHR ''/''"
    and "dropWhile (\<lambda>c. c = CHR ''/'') (rev url) \<noteq> []" by simp_all
  then show False using hd_dropWhile [of "\<lambda>c. c = CHR ''/''" "rev url"] by simp
qed

lemma rstrip_slash_decomp: "\<exists>n. url = rstrip_slash url @ replicate n (CHR ''/'')"
proof -
  let ?P = "\<lambda>c. c = CHR ''/''"
  have "rev url = takeWhile ?P (rev url) @ dropWhile ?P (rev url)" by simp
  then have "url = rev (dropWhile ?P (rev url)) @ rev (takeWhile ?P (rev url))"
    by (metis rev_append rev_rev_ident)
  moreover have "rev (takeWhile ?P (rev url))
                 = replicate (length (takeWhile ?P (rev url))) (CHR ''/'')"
    by (rule replicate_eqI) (auto dest: set_takeWhileD)
  ultimately show ?thesis unfolding rstrip_slash_def by metis
qed

text \<open>
  C5. \<^verbatim>\<open>setApiUrl(url)\<close> stores \<open>url\<close> without its trailing slashes, whatever \<open>url\<close> is:
  the stored base URL is \<open>url\<close> less a run of slashes at its end and does not end in a
  slash. So the predict URL is the stored base followed by \<^verbatim>\<open>/predict\<close> and does not end
  in \<^verbatim>\<open>//predict\<close>, and the upload URL for any file id does not end in
  \<^verbatim>\<open>//upload_correction/\<close> followed by that id.
\<close>

theorem setApiUrl_no_double_slash:
  "(\<exists>n. url = apiBaseUrl (setApiUrl url self) @ replicate n (CHR ''/''))
   \<and> \<not> suffix ''/'' (apiBaseUrl (setApiUrl url self))
   \<and> getPredictUrl (setApiUrl url self) = apiBaseUrl (setApiUrl url self) @ ''/predict''
   \<and> \<not> suffix ''//predict'' (getPredictUrl (setApiUrl url self))
   \<and> getUploadUrl (setApiUrl url self) file_id
       = apiBaseUrl (setApiUrl url self) @ ''/upload_correction/'' @ file_id
   \<and> \<not> suffix (''//upload_correction/'' @ file_id) (getUploadUrl (setApiUrl url self) file_id)"
proof -
  have a: "\<exists>n. url = apiBaseUrl (setApiUrl url self) @ replicate n (CHR ''/'')"
    using rstrip_slash_decomp by (simp add: setApiUrl_def)
  have b: "\<not> suffix ''/'' (apiBaseUrl (setApiUrl url self))"
    using rstrip_slash_no_suffix by (simp add: setApiUrl_def)
  have c: "\<not> suffix ''//predict'' (getPredictUrl (setApiUrl url self))"
  proof
    assume "suffix ''//predict'' (getPredictUrl (setApiUrl url self))"
    then have "suffix (''/'' @ ''/predict'') (rstrip_slash url @ ''/predict'')"
      by (simp add: getPredictUrl_def setApiUrl_def)
    then have "suffix ''/'' (rstrip_slash url)" by (simp only: same_suffix_suffix)
    then show False using rstrip_slash_no_suffix by blast
  qed
  have d: "\<not> suffix (''//upload_correction/'' @ file_id)
              (getUploadUrl (setApiUrl url self) file_id)"
  proof
    assume "suffix (''//upload_correction/'' @ file_id)
              (getUploadUrl (setApiUrl url self) file_id)"
    then have "suffix (''/'' @ (''/upload_correction/'' @ file_id))
                 (rstrip_slash url @ (''/upload_correction/'' @ file_id))"
      by (simp add: getUploadUrl_def setApiUrl_def)
    then have "suffix ''/'' (rstrip_slash url)" by (simp only: same_suffix_suffix)
    then show False using rstrip_slash_no_suffix by blast
  qed
  show ?thesis using a b c d by (simp add: getPredictUrl_def getUploadUrl_def)
qed

subsection \<open>\<^verbatim>\<open>startSegmentation\<close> without a URL\<close>

text \<open>
  C2. With no base URL configured (the empty string), \<^verbatim>\<open>startSegmentation\<close> returns
  without raising, for every volume and every environment; it issues no HTTP request,
  raises the error signal exactly once (and no finished signal), and leaves the stored
  file id and the output file as they were.
\<close>

theorem startSegmentation_no_url:
  assumes "apiBaseUrl s = []" and "startSegmentation env v s = (r, s')"
  shows "r = Inr () \<and> issued s s' = []
     \<and> errors_of (emitted s s') = [''API URL is not configured.'']
     \<and> finished_count (emitted s s') = 0
     \<and> currentFileId s' = currentFileId s \<and> outFile s' = outFile s"
  using assms by (auto simp: startSegmentation_def prog_defs signal_defs issued_def emitted_def)

theorem startSegmentation_no_url_witness:
  "apiBaseUrl init = []
   \<and> fst (startSegmentation (ok_env (Inr resp_abc123)) 7 init) = Inr ()
   \<and> issued init (snd (startSegmentation (ok_env (Inr resp_abc123)) 7 init)) = []
   \<and> errors_of (emitted init (snd (startSegmentation (ok_env (Inr resp_abc123)) 7 init)))
       = [''API URL is not configured.'']"
  using startSegmentation_no_url [of init "ok_env (Inr resp_abc123)" 7
      "fst (startSegmentation (ok_env (Inr resp_abc123)) 7 init)"
      "snd (startSegmentation (ok_env (Inr resp_abc123)) 7 init)"]
  by (simp add: init_def)

subsection \<open>\<^verbatim>\<open>startSegmentation\<close> when the server answers\<close>

text \<open>
  Once the request is answered and the temporary file removed, what remains of the call is
  the handling of the response (lines 87 to 104) under the \<^verbatim>\<open>except\<close> clause.
\<close>

lemma startSegmentation_answered:
  assumes "apiBaseUrl s \<noteq> []" and "answered env resp" and "pe_unlink env = None"
  shows "startSegmentation env v s =
     (if status_code resp \<noteq> 200
      then errorOccurred
             (''API returned error: '' @ str_int (status_code resp) @ '' - '' @ body_text resp)
      else try_except (storeResponse env resp)
             (\<lambda>e. errorOccurred (''Error during API communication: '' @ str_exn e)))
       (s\<lparr>currentVolumeNode := Some v,
          signals := signals s @ [ProgressInfo (''Sending volume to API: '' @ getPredictUrl s),
                                  ProgressInfo ''Uploading volume to API...''],
          httpLog := httpLog s @
            [\<lparr>req_url = getPredictUrl s,
              req_file = (case pe_NamedTemporaryFile env of Inr n \<Rightarrow> n | Inl _ \<Rightarrow> []),
              req_data = []\<rparr>]\<rparr>)"
  using assms
  by (auto simp: startSegmentation_def startSegmentation_try_def answered_def temp_created_def
        prog_defs signal_defs requests_post_def getPredictUrl_def split: sum.splits)

text \<open>
  C1. The base URL is configured and the calls to the host and the file system return.
  For a predict response of status 200 with header \<^verbatim>\<open>X-File-ID: abc123\<close> and body \<open>B\<close>,
  \<^verbatim>\<open>startSegmentation\<close> returns without raising; afterwards the output file holds \<open>B\<close>,
  the stored file id is \<^verbatim>\<open>abc123\<close>, the upload URL for the stored file id is the base
  URL followed by \<^verbatim>\<open>/upload_correction/abc123\<close>, the finished signal has been raised
  exactly once and the error signal not at all.
\<close>

theorem startSegmentation_success:
  assumes "apiBaseUrl s \<noteq> []" and "answered env resp" and "status_code resp = 200"
    and "headers resp ''X-File-ID'' = Some ''abc123''" and "content resp = B"
    and "pe_unlink env = None" and "output_writable env"
    and "startSegmentation env v s = (r, s')"
  shows "r = Inr () \<and> outFile s' = Some B \<and> currentFileId s' = Some ''abc123''
     \<and> getUploadUrl s' (str_opt (currentFileId s'))
         = apiBaseUrl s @ ''/upload_correction/abc123''
     \<and> finished_count (emitted s s') = 1 \<and> errors_of (emitted s s') = []"
  using assms(8) unfolding startSegmentation_answered [OF assms(1,2,6)]
  using assms(3,4,5,7)
  by (auto simp: storeResponse_def output_writable_def prog_defs signal_defs open_wb_def
      f_write_def getUploadUrl_def emitted_def)

theorem startSegmentation_success_witness:
  "apiBaseUrl configured \<noteq> [] \<and> answered (ok_env (Inr resp_abc123)) resp_abc123
   \<and> status_code resp_abc123 = 200 \<and> output_writable (ok_env (Inr resp_abc123))
   \<and> fst (startSegmentation (ok_env (Inr resp_abc123)) 7 configured) = Inr ()
   \<and> outFile (snd (startSegmentation (ok_env (Inr resp_abc123)) 7 configured)) = Some ''B''
   \<and> getUploadUrl (snd (startSegmentation (ok_env (Inr resp_abc123)) 7 configured))
        (str_opt (currentFileId (snd (startSegmentation (ok_env (Inr resp_abc123)) 7 configured))))
      = ''http://host:8000/upload_correction/abc123''
   \<and> finished_count (emitted configured
        (snd (startSegmentation (ok_env (Inr resp_abc123)) 7 configured))) = 1"
  using startSegmentation_success [of configured "ok_env (Inr resp_abc123)" resp_abc123 "''B''" 7
      "fst (startSegmentation (ok_env (Inr resp_abc123)) 7 configured)"
      "snd (startSegmentation (ok_env (Inr resp_abc123)) 7 configured)"]
  by (auto simp: configured_def setApiUrl_def rstrip_slash_def init_def ok_env_def
        resp_abc123_def answered_def temp_created_def output_writable_def)

text \<open>
  C3. The base URL is configured, the request is answered and the temporary file removed.
  For a response whose status is not 200 (so for every status outside 2xx),
  \<^verbatim>\<open>startSegmentation\<close> returns without raising; it raises the error signal exactly once,
  with a message that contains the status code and the body text, raises no finished
  signal, has issued exactly one request, and leaves the output file as it was.
\<close>

theorem startSegmentation_server_error:
  assumes "apiBaseUrl s \<noteq> []" and "answered env resp" and "status_code resp \<noteq> 200"
    and "pe_unlink env = None" and "startSegmentation env v s = (r, s')"
  shows "r = Inr ()
     \<and> errors_of (emitted s s')
         = [''API returned error: '' @ str_int (status_code resp) @ '' - '' @ body_text resp]
     \<and> (\<forall>m \<in> set (errors_of (emitted s s')).
           sublist (str_int (status_code resp)) m \<and> sublist (body_text resp) m)
     \<and> finished_count (emitted s s') = 0
     \<and> length (issued s s') = 1
     \<and> outFile s' = outFile s"
proof -
  have "sublist (str_int (status_code resp))
          (''API returned error: '' @ str_int (status_code resp) @ ('' - '' @ body_text resp))"
    by (rule sublist_appendI)
  moreover have "sublist (body_text resp)
          ((''API returned error: '' @ str_int (status_code resp) @ '' - '') @ body_text resp)"
    by (rule sublist_append_leftI)
  ultimately show ?thesis
    using assms(5) unfolding startSegmentation_answered [OF assms(1,2,4)]
    using assms(3)
    by (auto simp: prog_defs signal_defs emitted_def issued_def)
qed

lemma str_int_500: "str_int 500 = ''500''"
  by (simp add: str_int_def str_nat.simps digit_char_def)

theorem startSegmentation_server_error_witness:
  "apiBaseUrl configured \<noteq> [] \<and> answered (ok_env (Inr resp_boom)) resp_boom
   \<and> status_code resp_boom \<noteq> 200
   \<and> errors_of (emitted configured (snd (startSegmentation (ok_env (Inr resp_boom)) 7 configured)))
       = [''API returned error: 500 - boom'']
   \<and> outFile (snd (startSegmentation (ok_env (Inr resp_boom)) 7 configured)) = None"
  using startSegmentation_server_error [of configured "ok_env (Inr resp_boom)" resp_boom 7
      "fst (startSegmentation (ok_env (Inr resp_boom)) 7 configured)"
      "snd (startSegmentation (ok_env (Inr resp_boom)) 7 configured)"]
  by (simp add: configured_def setApiUrl_def rstrip_slash_def init_def ok_env_def
        resp_boom_def answered_def temp_created_def str_int_500)

subsection \<open>\<^verbatim>\<open>uploadSegmentation\<close> without a job\<close>

lemma uploadSegmentation_refused:
  assumes "apiBaseUrl s = [] \<or> \<not> truthy (currentFileId s)"
  shows "uploadSegmentation env seg s =
    (Inr False, s\<lparr>signals := signals s @
       [ErrorOccurred (if apiBaseUrl s = [] then ''API URL is not configured.''
                       else ''No file ID available. Please run inference first.'')]\<rparr>)"
  using assms by (auto simp: uploadSegmentation_def prog_defs signal_defs)

text \<open>
  C4. When no base URL is configured, or no file id is stored (the attribute is
  \<^verbatim>\<open>None\<close>, as it is until a predict call has stored one, or empty),
  \<^verbatim>\<open>uploadSegmentation\<close> returns \<^verbatim>\<open>False\<close> for every segmentation and every environment;
  it issues no HTTP request and raises the error signal once. The stored file id and base
  URL are unchanged, so the same holds for the next call.
\<close>

theorem uploadSegmentation_without_job:
  assumes "apiBaseUrl s = [] \<or> \<not> truthy (currentFileId s)"
    and "uploadSegmentation env seg s = (r, s')"
  shows "r = Inr False \<and> issued s s' = []
     \<and> errors_of (emitted s s')
         = [if apiBaseUrl s = [] then ''API URL is not configured.''
            else ''No file ID available. Please run inference first.'']
     \<and> currentFileId s' = currentFileId s \<and> apiBaseUrl s' = apiBaseUrl s"
  using assms(2) unfolding uploadSegmentation_refused [OF assms(1)]
  by (auto simp: emitted_def issued_def)

theorem uploadSegmentation_without_job_witness:
  "(apiBaseUrl configured = [] \<or> \<not> truthy (currentFileId configured))
   \<and> fst (uploadSegmentation ok_upload_env 3 configured) = Inr False
   \<and> issued configured (snd (uploadSegmentation ok_upload_env 3 configured)) = []
   \<and> errors_of (emitted configured (snd (uploadSegmentation ok_upload_env 3 configured)))
       = [''No file ID available. Please run inference first.'']"
  using uploadSegmentation_without_job [of configured ok_upload_env 3
      "fst (uploadSegmentation ok_upload_env 3 configured)"
      "snd (uploadSegmentation ok_upload_env 3 configured)"]
  by (simp add: configured_def setApiUrl_def rstrip_slash_def init_def)

subsection \<open>A response without \<^verbatim>\<open>X-File-ID\<close>\<close>

lemma uploadAll_refused:
  "apiBaseUrl s \<noteq> [] \<Longrightarrow> \<not> truthy (currentFileId s) \<Longrightarrow>
   uploadAll calls s =
     (replicate (length calls) (Inr False),
      s\<lparr>signals := signals s @ replicate (length calls)
           (ErrorOccurred ''No file ID available. Please run inference first.'')\<rparr>)"
proof (induction calls arbitrary: s)
  case Nil
  then show ?case by simp
next
  case (Cons c calls)
  obtain env seg where c: "c = (env, seg)" by (cases c)
  let ?s1 = "s\<lparr>signals := signals s @
       [ErrorOccurred ''No file ID available. Please run inference first.'']\<rparr>"
  have one: "uploadSegmentation env seg s = (Inr False, ?s1)"
    using uploadSegmentation_refused [of s env seg] Cons.prems by simp
  have "apiBaseUrl ?s1 \<noteq> []" and "\<not> truthy (currentFileId ?s1)"
    using Cons.prems by simp_all
  from Cons.IH [OF this] show ?case
    by (simp add: c one replicate_append_same)
qed

lemma errors_of_replicate:
  "errors_of (replicate n (ErrorOccurred m)) = replicate n m"
  by (induction n) simp_all

text \<open>
  C8. The base URL is configured and the calls to the host and the file system return.
  For a response of status 200 without the header \<^verbatim>\<open>X-File-ID\<close>, \<^verbatim>\<open>startSegmentation\<close>
  returns without raising, writes the body to the output file and raises the finished
  signal once and no error signal: the missing header only adds a progress message.
  Every one of the \<^verbatim>\<open>uploadSegmentation\<close> calls that follow returns \<^verbatim>\<open>False\<close>, raises
  the error signal with the text that no file id is available, and issues no request.
\<close>

theorem missing_file_id_is_soft:
  assumes "apiBaseUrl s \<noteq> []" and "answered env resp" and "status_code resp = 200"
    and "headers resp ''X-File-ID'' = None"
    and "pe_unlink env = None" and "output_writable env"
    and "startSegmentation env v s = (r, s')"
    and "uploadAll calls s' = (rs, s'')"
  shows "r = Inr () \<and> outFile s' = Some (content resp)
     \<and> emitted s s' = [ProgressInfo (''Sending volume to API: '' @ getPredictUrl s),
                        ProgressInfo ''Uploading volume to API...'',
                        ProgressInfo ''Warning: No file ID received from API'',
                        ProgressInfo ''Segmentation received from API with ID: None'',
                        InferenceFinished]
     \<and> finished_count (emitted s s') = 1 \<and> errors_of (emitted s s') = []
     \<and> rs = replicate (length calls) (Inr False)
     \<and> errors_of (emitted s' s'')
         = replicate (length calls) ''No file ID available. Please run inference first.''
     \<and> issued s' s'' = []"
proof -
  have start: "r = Inr () \<and> outFile s' = Some (content resp)
     \<and> emitted s s' = [ProgressInfo (''Sending volume to API: '' @ getPredictUrl s),
                        ProgressInfo ''Uploading volume to API...'',
                        ProgressInfo ''Warning: No file ID received from API'',
                        ProgressInfo ''Segmentation received from API with ID: None'',
                        InferenceFinished]
     \<and> currentFileId s' = None \<and> apiBaseUrl s' = apiBaseUrl s"
    using assms(7) unfolding startSegmentation_answered [OF assms(1,2,5)]
    using assms(3,4,6)
    by (auto simp: storeResponse_def output_writable_def prog_defs signal_defs open_wb_def
        f_write_def emitted_def)
  then have "apiBaseUrl s' \<noteq> []" and "\<not> truthy (currentFileId s')"
    using assms(1) by simp_all
  from uploadAll_refused [OF this, of calls] assms(8)
  have "rs = replicate (length calls) (Inr False)"
    and "s'' = s'\<lparr>signals := signals s' @ replicate (length calls)
           (ErrorOccurred ''No file ID available. Please run inference first.'')\<rparr>"
    by simp_all
  then show ?thesis using start
    by (simp add: emitted_def issued_def errors_of_replicate)
qed

theorem missing_file_id_is_soft_witness:
  "apiBaseUrl configured \<noteq> [] \<and> answered (ok_env (Inr resp_no_id)) resp_no_id
   \<and> status_code resp_no_id = 200 \<and> headers resp_no_id ''X-File-ID'' = None
   \<and> output_writable (ok_env (Inr resp_no_id))
   \<and> outFile (snd (startSegmentation (ok_env (Inr resp_no_id)) 7 configured)) = Some ''B''
   \<and> finished_count (emitted configured
        (snd (startSegmentation (ok_env (Inr resp_no_id)) 7 configured))) = 1
   \<and> fst (uploadAll [(ok_upload_env, 3), (ok_upload_env, 3)]
        (snd (startSegmentation (ok_env (Inr resp_no_id)) 7 configured)))
      = [Inr False, Inr False]"
  using missing_file_id_is_soft [of configured "ok_env (Inr resp_no_id)" resp_no_id 7
      "fst (startSegmentation (ok_env (Inr resp_no_id)) 7 configured)"
      "snd (startSegmentation (ok_env (Inr resp_no_id)) 7 configured)"
      "[(ok_upload_env, 3), (ok_upload_env, 3)]"
      "fst (uploadAll [(ok_upload_env, 3), (ok_upload_env, 3)]
        (snd (startSegmentation (ok_env (Inr resp_no_id)) 7 configured)))"
      "snd (uploadAll [(ok_upload_env, 3), (ok_upload_env, 3)]
        (snd (startSegmentation (ok_env (Inr resp_no_id)) 7 configured)))"]
  by (simp add: configured_def setApiUrl_def rstrip_slash_def init_def ok_env_def
        resp_no_id_def answered_def temp_created_def output_writable_def
        del: uploadAll.simps)

subsection \<open>Exceptions inside \<^verbatim>\<open>startSegmentation\<close>\<close>

lemma startSegmentation_returns: "fst (startSegmentation env v s) = Inr ()"
  by (auto simp: startSegmentation_def startSegmentation_try_def storeResponse_def prog_defs
      signal_defs requests_post_def open_wb_def f_write_def split: sum.splits option.splits)

text \<open>
  C6. \<^verbatim>\<open>startSegmentation\<close> returns without raising, for every volume, state and
  environment. With a base URL configured, whichever external call is the first to raise
  an exception \<open>e\<close> (creating the temporary file, exporting the volume, opening the file,
  the HTTP request, removing the temporary file, making the output directory, opening or
  writing the output file), \<open>e\<close> is reported: the error signal is raised once, with the
  text of \<open>e\<close>, and the finished signal is not raised.
\<close>

theorem startSegmentation_catches:
  assumes "startSegmentation env v s = (r, s')"
  shows "r = Inr ()
   \<and> (apiBaseUrl s \<noteq> [] \<longrightarrow>
        (pe_NamedTemporaryFile env = Inl e \<longrightarrow> reports s s' e)
      \<and> (temp_created env \<and> pe_exportNode env = Some e \<longrightarrow> reports s s' e)
      \<and> (temp_created env \<and> pe_exportNode env = None \<and> pe_open_rb env = Some e
           \<longrightarrow> reports s s' e)
      \<and> (temp_created env \<and> pe_exportNode env = None \<and> pe_open_rb env = None
           \<and> pe_post env = Inl e \<longrightarrow> reports s s' e)
      \<and> (answered env resp \<and> pe_unlink env = Some e \<longrightarrow> reports s s' e)
      \<and> (answered env resp \<and> pe_unlink env = None \<and> status_code resp = 200
           \<and> pe_mkdir env = Some e \<longrightarrow> reports s s' e)
      \<and> (answered env resp \<and> pe_unlink env = None \<and> status_code resp = 200
           \<and> pe_mkdir env = None \<and> pe_open_wb env = Some e \<longrightarrow> reports s s' e)
      \<and> (answered env resp \<and> pe_unlink env = None \<and> status_code resp = 200
           \<and> pe_mkdir env = None \<and> pe_open_wb env = None \<and> pe_write env = Some e
           \<longrightarrow> reports s s' e))"
proof -
  have r: "r = Inr ()" using startSegmentation_returns [of env v s] assms by simp
  have early: "reports s s' e"
    if "apiBaseUrl s \<noteq> []"
      and "pe_NamedTemporaryFile env = Inl e
           \<or> temp_created env \<and> pe_exportNode env = Some e
           \<or> temp_created env \<and> pe_exportNode env = None \<and> pe_open_rb env = Some e
           \<or> temp_created env \<and> pe_exportNode env = None \<and> pe_open_rb env = None
               \<and> pe_post env = Inl e
           \<or> answered env resp \<and> pe_unlink env = Some e"
    using that assms
    by (auto simp: startSegmentation_def startSegmentation_try_def prog_defs signal_defs
        requests_post_def reports_def emitted_def answered_def temp_created_def
        split: sum.splits)
  have late: "reports s s' e"
    if "apiBaseUrl s \<noteq> []" and "answered env resp" and "pe_unlink env = None"
      and "status_code resp = 200"
      and "pe_mkdir env = Some e
           \<or> pe_mkdir env = None \<and> pe_open_wb env = Some e
           \<or> pe_mkdir env = None \<and> pe_open_wb env = None \<and> pe_write env = Some e"
    using assms that(4,5) unfolding startSegmentation_answered [OF that(1,2,3)]
    by (cases "truthy (headers resp ''X-File-ID'')")
       (auto simp: storeResponse_def prog_defs signal_defs open_wb_def f_write_def
        reports_def emitted_def)
  show ?thesis using r early late by blast
qed

theorem startSegmentation_catches_witness:
  "apiBaseUrl configured \<noteq> []
   \<and> pe_post net_down_env = Inl (OtherException ''Connection refused'')
   \<and> fst (startSegmentation net_down_env 7 configured) = Inr ()
   \<and> reports configured (snd (startSegmentation net_down_env 7 configured))
        (OtherException ''Connection refused'')
   \<and> pe_write disk_full_env = Some (OtherException ''No space left on device'')
   \<and> fst (startSegmentation disk_full_env 7 configured) = Inr ()
   \<and> reports configured (snd (startSegmentation disk_full_env 7 configured))
        (OtherException ''No space left on device'')"
  using startSegmentation_catches [where env = net_down_env and v = 7 and s = configured
      and r = "fst (startSegmentation net_down_env 7 configured)"
      and s' = "snd (startSegmentation net_down_env 7 configured)"
      and e = "OtherException ''Connection refused''" and resp = resp_boom]
    startSegmentation_catches [where env = disk_full_env and v = 7 and s = configured
      and r = "fst (startSegmentation disk_full_env 7 configured)"
      and s' = "snd (startSegmentation disk_full_env 7 configured)"
      and e = "OtherException ''No space left on device''" and resp = resp_abc123]
  by (simp add: configured_def setApiUrl_def rstrip_slash_def init_def ok_env_def
        net_down_env_def disk_full_env_def resp_abc123_def answered_def temp_created_def)

subsection \<open>\<^verbatim>\<open>loadSegmentation\<close>\<close>

lemma loadSegmentation_wraps:
  "loadSegmentation env s = (Inl e, s') \<Longrightarrow>
   \<exists>cause. e = RuntimeError (''Failed to load segmentation: '' @ cause)"
  by (auto simp: loadSegmentation_def try_except_def raiseE_def
      split: prod.splits sum.splits)

text \<open>When every call returns, the segmentation is loaded and stored.\<close>

lemma loadSegmentation_loads:
  assumes "outFile s \<noteq> None" and "le_loadLabelVolume env = Inr l"
    and "le_AddNewNodeByClass env = Inr n" and "named env s"
    and "le_ImportLabelmapToSegmentationNode env = None" and "le_RemoveNode env = None"
  shows "loadSegmentation env s = (Inr n, s\<lparr>currentSegmentationNode := Some n\<rparr>)"
  using assms
  by (auto simp: loadSegmentation_def loadSegmentation_try_def prog_defs named_def
      split: sum.splits option.splits)

text \<open>
  C7. When the output file does not exist, as before any successful predict call,
  \<^verbatim>\<open>loadSegmentation\<close> raises, and the message says that the segmentation file was not
  found. Whatever \<^verbatim>\<open>loadSegmentation\<close> raises is a \<^verbatim>\<open>RuntimeError\<close> whose message is
  \<^verbatim>\<open>Failed to load segmentation: \<close> followed by a cause; when the file exists and one of
  the calls to the host raises \<open>e\<close> (or no volume is stored, so that \<^verbatim>\<open>GetName\<close> is
  called on \<^verbatim>\<open>None\<close>), the cause is the text of that exception.
\<close>

theorem loadSegmentation_raises:
  assumes "loadSegmentation env s = (r, s')"
  shows "(outFile s = None \<longrightarrow>
            r = Inl (RuntimeError (''Failed to load segmentation: ''
                  @ ''Segmentation file not found. API segmentation may have failed.'')))
   \<and> (\<forall>x. r = Inl x \<longrightarrow> (\<exists>cause. x = RuntimeError (''Failed to load segmentation: '' @ cause)))
   \<and> (outFile s \<noteq> None \<longrightarrow>
        (le_loadLabelVolume env = Inl e \<longrightarrow> r = wrapped e)
      \<and> (le_loadLabelVolume env = Inr l \<and> le_AddNewNodeByClass env = Inl e \<longrightarrow> r = wrapped e)
      \<and> (nodes_made env \<and> currentVolumeNode s = None \<longrightarrow> r = wrapped none_has_no_GetName)
      \<and> (nodes_made env \<and> currentVolumeNode s = Some v \<and> le_GetName env v = Inl e
           \<longrightarrow> r = wrapped e)
      \<and> (nodes_made env \<and> currentVolumeNode s = Some v \<and> le_GetName env v = Inr name
           \<and> le_SetName env (name @ ''_ApiSegmentation'') = Some e \<longrightarrow> r = wrapped e)
      \<and> (named env s \<and> le_ImportLabelmapToSegmentationNode env = Some e \<longrightarrow> r = wrapped e)
      \<and> (named env s \<and> le_ImportLabelmapToSegmentationNode env = None
           \<and> le_RemoveNode env = Some e \<longrightarrow> r = wrapped e))"
proof -
  have a: "outFile s = None \<Longrightarrow>
            r = Inl (RuntimeError (''Failed to load segmentation: ''
                  @ ''Segmentation file not found. API segmentation may have failed.''))"
    using assms
    by (auto simp: loadSegmentation_def loadSegmentation_try_def prog_defs file_not_found_def)
  have b: "\<forall>x. r = Inl x \<longrightarrow>
             (\<exists>cause. x = RuntimeError (''Failed to load segmentation: '' @ cause))"
    using assms loadSegmentation_wraps by blast
  have c: "r = wrapped e"
    if "outFile s \<noteq> None"
      and "le_loadLabelVolume env = Inl e
         \<or> le_loadLabelVolume env = Inr l \<and> le_AddNewNodeByClass env = Inl e
         \<or> nodes_made env \<and> currentVolumeNode s = Some v \<and> le_GetName env v = Inl e
         \<or> nodes_made env \<and> currentVolumeNode s = Some v \<and> le_GetName env v = Inr name
             \<and> le_SetName env (name @ ''_ApiSegmentation'') = Some e
         \<or> named env s \<and> le_ImportLabelmapToSegmentationNode env = Some e
         \<or> named env s \<and> le_ImportLabelmapToSegmentationNode env = None
             \<and> le_RemoveNode env = Some e"
    using that assms
    by (auto simp: loadSegmentation_def loadSegmentation_try_def prog_defs wrapped_def
        nodes_made_def named_def split: sum.splits option.splits)
  have d: "r = wrapped none_has_no_GetName"
    if "outFile s \<noteq> None" and "nodes_made env" and "currentVolumeNode s = None"
    using that assms
    by (auto simp: loadSegmentation_def loadSegmentation_try_def prog_defs wrapped_def
        nodes_made_def split: sum.splits option.splits)
  show ?thesis using a b c d by blast
qed

theorem loadSegmentation_raises_witness:
  "outFile configured = None
   \<and> fst (loadSegmentation ok_load_env configured)
      = Inl (RuntimeError (''Failed to load segmentation: ''
                  @ ''Segmentation file not found. API segmentation may have failed.''))
   \<and> outFile with_job \<noteq> None
   \<and> le_loadLabelVolume bad_load_env = Inl (OtherException ''cannot read file'')
   \<and> fst (loadSegmentation bad_load_env with_job)
      = Inl (RuntimeError ''Failed to load segmentation: cannot read file'')"
  using loadSegmentation_raises [where env = ok_load_env and s = configured
      and r = "fst (loadSegmentation ok_load_env configured)"
      and s' = "snd (loadSegmentation ok_load_env configured)"]
    loadSegmentation_raises [where env = bad_load_env and s = with_job
      and r = "fst (loadSegmentation bad_load_env with_job)"
      and s' = "snd (loadSegmentation bad_load_env with_job)"
      and e = "OtherException ''cannot read file''"]
  by (simp add: configured_def with_job_def setApiUrl_def init_def bad_load_env_def
        ok_load_env_def wrapped_def)

subsection \<open>A failed predict call keeps the job\<close>

lemma uploadSegmentation_target:
  assumes "uploadSegmentation uenv seg s = (r, s')"
  shows "\<forall>q \<in> set (issued s s'). req_url q = getUploadUrl s (str_opt (currentFileId s))"
  using assms
  by (auto simp: uploadSegmentation_def uploadSegmentation_try_def prog_defs signal_defs
      requests_post_def issued_def getUploadUrl_def
      split: sum.splits option.splits if_splits)

lemma startSegmentation_sets_volume:
  assumes "apiBaseUrl s \<noteq> []" and "startSegmentation env v s = (r, s')"
  shows "currentVolumeNode s' = Some v \<and> apiBaseUrl s' = apiBaseUrl s"
  using assms
  by (auto simp: startSegmentation_def startSegmentation_try_def storeResponse_def prog_defs
      signal_defs requests_post_def open_wb_def f_write_def
      split: sum.splits option.splits if_splits)

lemma startSegmentation_keeps_fileId:
  assumes "apiBaseUrl s \<noteq> []" and "fails_before_header env"
    and "startSegmentation env v s = (r, s')"
  shows "currentFileId s' = currentFileId s \<and> length (errors_of (emitted s s')) = 1"
  using assms
  by (auto simp: startSegmentation_def startSegmentation_try_def prog_defs
      signal_defs requests_post_def fails_before_header_def temp_created_def emitted_def
      split: sum.splits option.splits)

text \<open>
  C10. With a base URL configured, \<^verbatim>\<open>startSegmentation\<close> stores the new volume whatever
  happens next. When the call fails before the header is read (a call of lines 71 to 84
  raises, or the status is not 200), the stored file id is the one of before; so the upload
  URL for the stored file id is unchanged, and every request of an \<^verbatim>\<open>uploadSegmentation\<close>
  that follows goes to the URL of the old job.
\<close>

theorem failed_predict_keeps_job:
  assumes "apiBaseUrl s \<noteq> []" and "startSegmentation env v s = (r, s')"
    and "uploadSegmentation uenv seg s' = (ru, s'')"
  shows "currentVolumeNode s' = Some v
   \<and> (fails_before_header env \<longrightarrow>
        currentFileId s' = currentFileId s
      \<and> getUploadUrl s' (str_opt (currentFileId s')) = getUploadUrl s (str_opt (currentFileId s))
      \<and> (\<forall>q \<in> set (issued s' s''). req_url q = getUploadUrl s (str_opt (currentFileId s))))"
proof -
  have v: "currentVolumeNode s' = Some v" and u: "apiBaseUrl s' = apiBaseUrl s"
    using startSegmentation_sets_volume [OF assms(1,2)] by simp_all
  have t: "\<forall>q \<in> set (issued s' s''). req_url q = getUploadUrl s' (str_opt (currentFileId s'))"
    using uploadSegmentation_target [OF assms(3)] .
  show ?thesis
  proof (cases "fails_before_header env")
    case True
    then have "currentFileId s' = currentFileId s"
      using startSegmentation_keeps_fileId [OF assms(1) _ assms(2)] by simp
    then show ?thesis using v u t by (simp add: getUploadUrl_def)
  next
    case False
    then show ?thesis using v by simp
  qed
qed

theorem failed_predict_keeps_job_witness:
  "apiBaseUrl with_job \<noteq> [] \<and> fails_before_header (ok_env (Inr resp_boom))
   \<and> currentFileId with_job = Some ''abc123''
   \<and> currentVolumeNode (snd (startSegmentation (ok_env (Inr resp_boom)) 8 with_job)) = Some 8
   \<and> currentFileId (snd (startSegmentation (ok_env (Inr resp_boom)) 8 with_job)) = Some ''abc123''
   \<and> getUploadUrl (snd (startSegmentation (ok_env (Inr resp_boom)) 8 with_job))
        (str_opt (currentFileId (snd (startSegmentation (ok_env (Inr resp_boom)) 8 with_job))))
      = ''http://host:8000/upload_correction/abc123''"
  using failed_predict_keeps_job [where s = with_job and env = "ok_env (Inr resp_boom)"
      and v = 8 and r = "fst (startSegmentation (ok_env (Inr resp_boom)) 8 with_job)"
      and s' = "snd (startSegmentation (ok_env (Inr resp_boom)) 8 with_job)"
      and uenv = ok_upload_env and seg = 3
      and ru = "fst (uploadSegmentation ok_upload_env 3
                      (snd (startSegmentation (ok_env (Inr resp_boom)) 8 with_job)))"
      and s'' = "snd (uploadSegmentation ok_upload_env 3
                      (snd (startSegmentation (ok_env (Inr resp_boom)) 8 with_job)))"]
  by (auto simp: with_job_def configured_def setApiUrl_def rstrip_slash_def init_def ok_env_def
        resp_boom_def fails_before_header_def temp_created_def getUploadUrl_def)

text \<open>
  The upload after the failed call of the example: one request, to the old job, with the
  name of the new volume.
\<close>

lemma upload_after_failed_predict:
  "issued (snd (startSegmentation (ok_env (Inr resp_boom)) 8 with_job))
          (snd (uploadSegmentation ok_upload_env 3
                  (snd (startSegmentation (ok_env (Inr resp_boom)) 8 with_job))))
    = [\<lparr>req_url = ''http://host:8000/upload_correction/abc123'', req_file = ''tmp1.nii.gz'',
        req_data = [(''original_volume_name'', ''CT'')]\<rparr>]"
  by (simp add: with_job_def configured_def setApiUrl_def rstrip_slash_def init_def ok_env_def
        resp_boom_def startSegmentation_def startSegmentation_try_def prog_defs signal_defs
        requests_post_def uploadSegmentation_def uploadSegmentation_try_def ok_upload_env_def
        getUploadUrl_def getPredictUrl_def issued_def)

subsection \<open>The stop guard of the widget\<close>

lemmas widget_defs = setButtonsEnabled_def setApplyVisible_def onProgressInfo_def
  reportError_def reportFinished_def onApiLogic_def called_def

text \<open>
  While the guard is set, a handler returns without raising, shows no window and makes no
  call on the logic; the guard stays set.
\<close>

lemma handle_while_stopping:
  assumes "isStopping w"
  shows "\<exists>w'. handle d w = (Inr (), w') \<and> isStopping w' \<and> dialogs w' = dialogs w
     \<and> logicCalls w' = logicCalls w \<and> selectedLogic w' = selectedLogic w
     \<and> apiLogic w' = apiLogic w"
proof (cases d)
  case (Pair sg env)
  then show ?thesis using assms
    by (cases sg)
       (auto simp: onInferenceFinished_def onInferenceError_def prog_defs widget_defs)
qed

lemma deliver_while_stopping:
  "isStopping w \<Longrightarrow>
   \<exists>w'. deliver ds w = (Inr (), w') \<and> isStopping w' \<and> dialogs w' = dialogs w
     \<and> logicCalls w' = logicCalls w \<and> selectedLogic w' = selectedLogic w
     \<and> apiLogic w' = apiLogic w"
proof (induction ds arbitrary: w)
  case Nil
  then show ?case by (simp add: returnE_def)
next
  case (Cons d ds)
  from handle_while_stopping [OF Cons.prems, of d]
  obtain w1 where h: "handle d w = (Inr (), w1)" and s: "isStopping w1"
    and k: "dialogs w1 = dialogs w" "logicCalls w1 = logicCalls w"
       "selectedLogic w1 = selectedLogic w" "apiLogic w1 = apiLogic w"
    by blast
  from Cons.IH [OF s] obtain w2 where "deliver ds w1 = (Inr (), w2)" and "isStopping w2"
    and "dialogs w2 = dialogs w1" "logicCalls w2 = logicCalls w1"
       "selectedLogic w2 = selectedLogic w1" "apiLogic w2 = apiLogic w1"
    by blast
  then show ?case using h k by (simp add: seqE_def bindE_def)
qed

text \<open>
  C9. \<^verbatim>\<open>onStopClicked\<close> sets the guard, stops the logic, waits and runs the pending
  events, then clears the guard and shows the apply button. Whatever signals are delivered
  in between, the finished signal among them, the widget shows no window and does not
  load the segmentation: the only calls on the logic are the stop and the wait, and the
  widget ends with the apply button visible and enabled and the stop button hidden. (The
  local logic's stop and wait are taken to return.) In any state with the guard set,
  \<^verbatim>\<open>onInferenceFinished\<close> returns without loading the segmentation or showing a window,
  and leaves the apply button visible.
\<close>

theorem stop_suppresses_finished:
  assumes "onStopClicked env w = (r, w')"
    and "selectedLogic w = LocalLogic \<longrightarrow> se_stop env = None \<and> se_wait env = None"
    and "onInferenceFinished fenv u = (ru, u')"
  shows "r = Inr ()
     \<and> calls_made w w' = [StopSegmentation, WaitForSegmentationFinished]
     \<and> shown w w' = []
     \<and> applyVisible w' \<and> \<not> stopVisible w' \<and> applyEnabled w' \<and> \<not> isStopping w'
     \<and> (isStopping u \<longrightarrow>
           ru = Inr () \<and> calls_made u u' = [] \<and> shown u u' = []
         \<and> applyVisible u' \<and> \<not> stopVisible u' \<and> applyEnabled u')"
proof -
  have guard: "isStopping u \<longrightarrow>
           ru = Inr () \<and> calls_made u u' = [] \<and> shown u u' = []
         \<and> applyVisible u' \<and> \<not> stopVisible u' \<and> applyEnabled u'"
    using assms(3)
    by (auto simp: onInferenceFinished_def prog_defs widget_defs calls_made_def shown_def)
  let ?w0 = "w\<lparr>isStopping := True, logicCalls := logicCalls w @ [StopSegmentation]\<rparr>"
  have s0: "isStopping ?w0" by simp
  obtain w1 where st: "logic_stopSegmentation env (w\<lparr>isStopping := True\<rparr>) = (Inr (), w1)"
    and w1: "isStopping w1" "dialogs w1 = dialogs w"
      "logicCalls w1 = logicCalls w @ [StopSegmentation]" "selectedLogic w1 = selectedLogic w"
  proof (cases "selectedLogic w")
    case ApiLogic
    then show ?thesis using that
      by (simp add: logic_stopSegmentation_def stopSegmentation_def prog_defs widget_defs)
  next
    case LocalLogic
    from deliver_while_stopping [OF s0, of "se_during_stop env"]
    obtain x where "deliver (se_during_stop env) ?w0 = (Inr (), x)" "isStopping x"
      "dialogs x = dialogs ?w0" "logicCalls x = logicCalls ?w0"
      "selectedLogic x = selectedLogic ?w0"
      by blast
    then show ?thesis using that LocalLogic assms(2)
      by (simp add: logic_stopSegmentation_def prog_defs widget_defs)
  qed
  let ?w1 = "w1\<lparr>logicCalls := logicCalls w1 @ [WaitForSegmentationFinished]\<rparr>"
  have s1: "isStopping ?w1" using w1 by simp
  obtain w2 where wt: "logic_waitForSegmentationFinished env w1 = (Inr (), w2)"
    and w2: "isStopping w2" "dialogs w2 = dialogs w"
      "logicCalls w2 = logicCalls w @ [StopSegmentation, WaitForSegmentationFinished]"
  proof (cases "selectedLogic w")
    case ApiLogic
    then show ?thesis using that w1
      by (simp add: logic_waitForSegmentationFinished_def waitForSegmentationFinished_def
          prog_defs widget_defs)
  next
    case LocalLogic
    from deliver_while_stopping [OF s1, of "se_during_wait env"]
    obtain x where "deliver (se_during_wait env) ?w1 = (Inr (), x)" "isStopping x"
      "dialogs x = dialogs ?w1" "logicCalls x = logicCalls ?w1"
      by blast
    then show ?thesis using that LocalLogic assms(2) w1
      by (simp add: logic_waitForSegmentationFinished_def prog_defs widget_defs)
  qed
  from deliver_while_stopping [OF w2(1), of "se_during_processEvents env"]
  obtain w3 where pe: "deliver (se_during_processEvents env) w2 = (Inr (), w3)"
    and w3: "dialogs w3 = dialogs w2" "logicCalls w3 = logicCalls w2"
    by blast
  have "onStopClicked env w = setApplyVisible True (w3\<lparr>isStopping := False\<rparr>)"
    by (simp add: onStopClicked_def seqE_def bindE_def modifyE_def st wt pe)
  then have "r = Inr () \<and> calls_made w w' = [StopSegmentation, WaitForSegmentationFinished]
     \<and> shown w w' = []
     \<and> applyVisible w' \<and> \<not> stopVisible w' \<and> applyEnabled w' \<and> \<not> isStopping w'"
    using assms(1) w2 w3
    by (auto simp: prog_defs widget_defs calls_made_def shown_def)
  then show ?thesis using guard by blast
qed


theorem stop_suppresses_finished_witness:
  "selectedLogic running = ApiLogic
   \<and> se_during_processEvents finish_during_stop = [(InferenceFinished, ok_finish_env)]
   \<and> fst (onStopClicked finish_during_stop running) = Inr ()
   \<and> calls_made running (snd (onStopClicked finish_during_stop running))
       = [StopSegmentation, WaitForSegmentationFinished]
   \<and> shown running (snd (onStopClicked finish_during_stop running)) = []
   \<and> applyVisible (snd (onStopClicked finish_during_stop running))
   \<and> \<not> stopVisible (snd (onStopClicked finish_during_stop running))
   \<and> isStopping stopping
   \<and> fst (onInferenceFinished ok_finish_env stopping) = Inr ()
   \<and> calls_made stopping (snd (onInferenceFinished ok_finish_env stopping)) = []
   \<and> shown stopping (snd (onInferenceFinished ok_finish_env stopping)) = []
   \<and> applyVisible (snd (onInferenceFinished ok_finish_env stopping))"
  using stop_suppresses_finished [where env = finish_during_stop and w = running
      and r = "fst (onStopClicked finish_during_stop running)"
      and w' = "snd (onStopClicked finish_during_stop running)"
      and fenv = ok_finish_env and u = stopping
      and ru = "fst (onInferenceFinished ok_finish_env stopping)"
      and u' = "snd (onInferenceFinished ok_finish_env stopping)"]
  by (simp add: running_def stopping_def finish_during_stop_def)

text \<open>
  Without the guard the handler loads the segmentation and reports success. The guard
  is cleared before \<^verbatim>\<open>onStopClicked\<close> returns: a finished signal delivered after the
  return is handled in this way too.
\<close>

lemma finished_when_not_stopping:
  "fst (onInferenceFinished ok_finish_env running) = Inr ()
   \<and> calls_made running (snd (onInferenceFinished ok_finish_env running)) = [LoadSegmentation]
   \<and> shown running (snd (onInferenceFinished ok_finish_env running))
       = [InfoDisplay ''Inference ended successfully.'']
   \<and> applyVisible (snd (onInferenceFinished ok_finish_env running))"
  by (simp add: running_def ok_finish_env_def ok_load_env_def with_job_def configured_def
      setApiUrl_def init_def onInferenceFinished_def logic_loadSegmentation_def
      loadSegmentation_def loadSegmentation_try_def try_finally_def
      try_except_RuntimeError_def prog_defs widget_defs calls_made_def shown_def)

lemma finished_after_stop_returned:
  "\<not> isStopping (snd (onStopClicked quiet_stop running))
   \<and> calls_made (snd (onStopClicked quiet_stop running))
        (snd (onInferenceFinished ok_finish_env (snd (onStopClicked quiet_stop running))))
       = [LoadSegmentation]
   \<and> shown (snd (onStopClicked quiet_stop running))
        (snd (onInferenceFinished ok_finish_env (snd (onStopClicked quiet_stop running))))
       = [InfoDisplay ''Inference ended successfully.'']"
  by (simp add: running_def quiet_stop_def ok_finish_env_def ok_load_env_def with_job_def
      configured_def setApiUrl_def init_def onStopClicked_def logic_stopSegmentation_def
      logic_waitForSegmentationFinished_def stopSegmentation_def
      waitForSegmentationFinished_def onInferenceFinished_def logic_loadSegmentation_def
      loadSegmentation_def loadSegmentation_try_def try_finally_def
      try_except_RuntimeError_def prog_defs widget_defs calls_made_def shown_def)

end
